theory Spec2Isabelle
  imports Complex_Main
begin

section \<open>Current filament sets of pleiades (current\_sets.py)\<close>

text \<open>
  A shallow embedding of \<^verbatim>\<open>pleiades/current_sets.py\<close>: the abstract class
  \<^verbatim>\<open>CurrentFilamentSet\<close> and its three concrete shapes \<^verbatim>\<open>ArbitraryPoints\<close>,
  \<^verbatim>\<open>RectangularCoil\<close> and \<^verbatim>\<open>MagnetRing\<close>.

  Numbers. The geometry (coordinates, spacings, angles) is computed in \<open>real\<close>: the
  float arithmetic of numpy is idealised to exact arithmetic, so an equation proved
  here is what the source computes up to rounding. The current and the weights are
  values of \<open>npfloat\<close>, the reals extended by the three special values of IEEE 754,
  because the source divides by a sum of weights that may be zero and numpy answers
  such a division with an infinity or a NaN (and a warning), never with an exception.
  Their arithmetic keeps the range of float64: a result too large overflows to an
  infinity and a result too small underflows to zero; only the rounding inside the
  range is idealised.
\<close>

subsection \<open>Errors and numpy values\<close>

datatype error = ValueError | TypeError | IndexError | NotImplementedError

datatype npfloat = Fin real | PInf | NInf | NaN

fun is_finite :: "npfloat \<Rightarrow> bool" where
  "is_finite (Fin x) = True"
| "is_finite PInf = False"
| "is_finite NInf = False"
| "is_finite NaN = False"

text \<open>The range of float64 under round-to-nearest. The largest finite value is
  \<open>2^1024 - 2^971\<close>; a result of magnitude \<open>2^1024 - 2^970\<close> or more rounds to an
  infinity. The smallest positive value is \<open>2^-1074\<close>; a result of magnitude
  \<open>2^-1075\<close> or less rounds to zero. Between the two a result is kept as it is: the
  rounding to 53 bits is not modelled.\<close>

definition overflow_threshold :: real where
  "overflow_threshold = 2 ^ 1024 - 2 ^ 970"

definition underflow_threshold :: real where
  "underflow_threshold = 1 / 2 ^ 1075"

definition to_float64 :: "real \<Rightarrow> npfloat" where
  "to_float64 x =
     (if overflow_threshold \<le> x then PInf
      else if x \<le> - overflow_threshold then NInf
      else if \<bar>x\<bar> \<le> underflow_threshold then Fin 0
      else Fin x)"

text \<open>Addition, multiplication and true division of float64 values (with a single
  zero, which divides like \<open>+0.0\<close>).\<close>

fun fadd :: "npfloat \<Rightarrow> npfloat \<Rightarrow> npfloat" where
  "fadd NaN y = NaN"
| "fadd x NaN = NaN"
| "fadd (Fin a) (Fin b) = to_float64 (a + b)"
| "fadd (Fin a) PInf = PInf"
| "fadd (Fin a) NInf = NInf"
| "fadd PInf (Fin b) = PInf"
| "fadd NInf (Fin b) = NInf"
| "fadd PInf PInf = PInf"
| "fadd NInf NInf = NInf"
| "fadd PInf NInf = NaN"
| "fadd NInf PInf = NaN"

fun fmul :: "npfloat \<Rightarrow> npfloat \<Rightarrow> npfloat" where
  "fmul NaN y = NaN"
| "fmul x NaN = NaN"
| "fmul (Fin a) (Fin b) = to_float64 (a * b)"
| "fmul (Fin a) PInf = (if 0 < a then PInf else if a < 0 then NInf else NaN)"
| "fmul (Fin a) NInf = (if 0 < a then NInf else if a < 0 then PInf else NaN)"
| "fmul PInf (Fin b) = (if 0 < b then PInf else if b < 0 then NInf else NaN)"
| "fmul NInf (Fin b) = (if 0 < b then NInf else if b < 0 then PInf else NaN)"
| "fmul PInf PInf = PInf"
| "fmul NInf NInf = PInf"
| "fmul PInf NInf = NInf"
| "fmul NInf PInf = NInf"

fun fdiv :: "npfloat \<Rightarrow> npfloat \<Rightarrow> npfloat" where
  "fdiv NaN y = NaN"
| "fdiv x NaN = NaN"
| "fdiv (Fin a) (Fin b) =
     (if b \<noteq> 0 then to_float64 (a / b)
      else if 0 < a then PInf else if a < 0 then NInf else NaN)"
| "fdiv (Fin a) PInf = Fin 0"
| "fdiv (Fin a) NInf = Fin 0"
| "fdiv PInf (Fin b) = (if 0 \<le> b then PInf else NInf)"
| "fdiv NInf (Fin b) = (if 0 \<le> b then NInf else PInf)"
| "fdiv PInf PInf = NaN"
| "fdiv NInf NInf = NaN"
| "fdiv PInf NInf = NaN"
| "fdiv NInf PInf = NaN"

text \<open>\<^verbatim>\<open>np.sum\<close> of a one-dimensional array; the sum of the empty array is 0.\<close>

definition np_sum :: "npfloat list \<Rightarrow> npfloat" where
  "np_sum ws = foldr fadd ws (Fin 0)"

text \<open>\<^verbatim>\<open>np.ones(n)\<close>: a negative length raises ValueError.\<close>

definition np_ones :: "int \<Rightarrow> error + npfloat list" where
  "np_ones n = (if n < 0 then Inl ValueError else Inr (replicate (nat n) (Fin 1)))"

subsection \<open>The base class CurrentFilamentSet\<close>

type_synonym point = "real \<times> real"

type_synonym kwargs = "string \<rightharpoonup> string"

text \<open>The attributes \<^verbatim>\<open>_current\<close>, \<^verbatim>\<open>_weights\<close>, \<^verbatim>\<open>patch_kw\<close> (None or a dictionary)
  and \<^verbatim>\<open>_uptodate\<close>, the flag that the Green's functions are up to date: the data is
  stale when it is False.\<close>

record filament_set =
  current :: npfloat
  weights :: "npfloat list"
  patch_kw :: "kwargs option"
  uptodate :: bool

text \<open>Modelled from the spec: \<^verbatim>\<open>cv.flag_greens_on_set\<close>, the decorator of
  \<^verbatim>\<open>pleiades/checkvalue.py\<close>, which is not among the sources. By section 4.2 of the
  specification a decorated setter performs its assignment and, as a side effect, marks
  the Green's-function data stale.\<close>

definition flag_greens_on_set ::
  "('a filament_set_scheme \<Rightarrow> 'v \<Rightarrow> 'a filament_set_scheme) \<Rightarrow>
   'a filament_set_scheme \<Rightarrow> 'v \<Rightarrow> 'a filament_set_scheme" where
  "flag_greens_on_set func obj val = (func obj val)\<lparr>uptodate := False\<rparr>"

definition total_current :: "'a filament_set_scheme \<Rightarrow> npfloat" where
  "total_current self = fmul (current self) (np_sum (weights self))"

definition set_current :: "'a filament_set_scheme \<Rightarrow> npfloat \<Rightarrow> 'a filament_set_scheme" where
  "set_current self c = self\<lparr>current := c\<rparr>"

definition set_weights ::
  "'a filament_set_scheme \<Rightarrow> npfloat list \<Rightarrow> 'a filament_set_scheme" where
  "set_weights = flag_greens_on_set (\<lambda>self w. self\<lparr>weights := w\<rparr>)"

definition set_total_current ::
  "'a filament_set_scheme \<Rightarrow> npfloat \<Rightarrow> 'a filament_set_scheme" where
  "set_total_current self t = set_current self (fdiv t (np_sum (weights self)))"

subsection \<open>numpy and geometry helpers\<close>

text \<open>\<^verbatim>\<open>np.isclose(a, b, rtol, atol)\<close>.\<close>

definition np_isclose :: "real \<Rightarrow> real \<Rightarrow> real \<Rightarrow> real \<Rightarrow> bool" where
  "np_isclose a b rtol atol = (\<bar>a - b\<bar> \<le> atol + rtol * \<bar>b\<bar>)"

text \<open>\<^verbatim>\<open>np.linspace(start, stop, num)\<close>, following numpy's own steps: a negative
  \<open>num\<close> raises ValueError; the samples are \<open>start + i * step\<close> with
  \<open>step = (stop - start) / (num - 1)\<close> (for \<open>num \<le> 1\<close> there is no step and the
  only sample is \<open>start\<close>); for \<open>num > 1\<close> the last sample is overwritten by
  \<open>stop\<close>.\<close>

definition linspace :: "real \<Rightarrow> real \<Rightarrow> int \<Rightarrow> error + real list" where
  "linspace start stop num =
     (if num < 0 then Inl ValueError
      else let n = nat num; dv = n - 1; delta = stop - start;
               y = (if 0 < dv then map (\<lambda>i. start + real i * (delta / real dv)) [0..<n]
                    else map (\<lambda>i. start + real i * delta) [0..<n])
           in Inr (if 1 < n then y[n - 1 := stop] else y))"

text \<open>Arrays of points. \<^verbatim>\<open>np.array\<close> of a non-empty list of pairs is an N x 2
  array; of the empty list it is the empty one-dimensional array.\<close>

datatype ndarray = Empty1D | Nx2 "point list"

fun rows :: "ndarray \<Rightarrow> point list" where
  "rows Empty1D = []"
| "rows (Nx2 ps) = ps"

definition np_array :: "point list \<Rightarrow> ndarray" where
  "np_array ps = (if ps = [] then Empty1D else Nx2 ps)"

definition padd :: "point \<Rightarrow> point \<Rightarrow> point" where
  "padd p q = (fst p + fst q, snd p + snd q)"

definition psub :: "point \<Rightarrow> point \<Rightarrow> point" where
  "psub p q = (fst p - fst q, snd p - snd q)"

text \<open>The matrix \<^verbatim>\<open>[[c, -s], [s, c]]\<close> of the \<^verbatim>\<open>rotate\<close> methods, for an angle in
  degrees, and the product \<^verbatim>\<open>p @ m\<close> of a row vector with a 2 x 2 matrix.\<close>

definition rotation :: "real \<Rightarrow> (real \<times> real) \<times> (real \<times> real)" where
  "rotation angle =
     (let a = pi * angle / 180; c = cos a; s = sin a in ((c, - s), (s, c)))"

definition vecmat :: "point \<Rightarrow> (real \<times> real) \<times> (real \<times> real) \<Rightarrow> point" where
  "vecmat p m =
     (fst p * fst (fst m) + snd p * fst (snd m),
      fst p * snd (fst m) + snd p * snd (snd m))"

text \<open>\<^verbatim>\<open>(p - pivot) @ rotation + pivot\<close>, the expression of every \<^verbatim>\<open>rotate\<close>
  method.\<close>

definition rotate_about :: "real \<Rightarrow> point \<Rightarrow> point \<Rightarrow> point" where
  "rotate_about angle pivot p = padd (vecmat (psub p pivot) (rotation angle)) pivot"

text \<open>Modelled from the spec: \<^verbatim>\<open>rotate\<close> of \<^verbatim>\<open>pleiades/transforms.py\<close>, which is not
  among the sources. By section 4.1 of the specification it rotates each point about
  the pivot by the angle in degrees, with the rotation matrix of the cosine and sine of
  the angle in radians, and returns an array of the same shape; the matrix is taken in
  the orientation the \<^verbatim>\<open>rotate\<close> methods of this file use.\<close>

fun transforms_rotate :: "ndarray \<Rightarrow> real \<Rightarrow> point \<Rightarrow> ndarray" where
  "transforms_rotate Empty1D angle pivot = Empty1D"
| "transforms_rotate (Nx2 ps) angle pivot = Nx2 (map (rotate_about angle pivot) ps)"

text \<open>\<^verbatim>\<open>arr[idx, :]\<close> for a list of row indices: a one-dimensional array has no
  second axis (IndexError); a negative index counts from the end; an index out of range
  raises IndexError.\<close>

fun take_rows_list :: "point list \<Rightarrow> int list \<Rightarrow> error + point list" where
  "take_rows_list ps [] = Inr []"
| "take_rows_list ps (i # idx) =
     (let n = int (length ps); j = (if i < 0 then i + n else i)
      in if 0 \<le> j \<and> j < n
         then (case take_rows_list ps idx of
                 Inl e \<Rightarrow> Inl e
               | Inr rest \<Rightarrow> Inr (ps ! nat j # rest))
         else Inl IndexError)"

fun take_rows :: "ndarray \<Rightarrow> int list \<Rightarrow> error + point list" where
  "take_rows Empty1D idx = Inl IndexError"
| "take_rows (Nx2 ps) idx = take_rows_list ps idx"

text \<open>\<^verbatim>\<open>arr[a:b, col] = vals\<close> for a slice of \<open>n\<close> rows: the values fit, or a
  single value is broadcast, or the assignment raises ValueError.\<close>

definition set_slice :: "nat \<Rightarrow> real list \<Rightarrow> error + real list" where
  "set_slice n vals =
     (if length vals = n then Inr vals
      else if length vals = 1 then Inr (replicate n (hd vals))
      else Inl ValueError)"



text \<open>The boundary polygon: \<^verbatim>\<open>Path(verts, codes)\<close> with the class attribute
  \<^verbatim>\<open>_codes\<close>. The constructor \<^verbatim>\<open>patches.PathPatch\<close> belongs to matplotlib; the
  \<^verbatim>\<open>patch\<close> properties below take it as a parameter.\<close>

datatype path_code = MOVETO | LINETO | CLOSEPOLY

type_synonym path = "point list \<times> path_code list"

definition codes :: "path_code list" where
  "codes = [MOVETO, LINETO, LINETO, LINETO, CLOSEPOLY]"

subsection \<open>ArbitraryPoints\<close>

text \<open>The stored array \<^verbatim>\<open>_rz_pts\<close> is an N x 2 array, as the constructor documents
  its argument.\<close>

record arbitrary_points = filament_set +
  stored_rz_pts :: "point list"
  arb_angle :: real

definition ap_npts :: "arbitrary_points \<Rightarrow> int" where
  "ap_npts self = int (length (stored_rz_pts self))"


text \<open>The constructors take every keyword argument explicitly: the weights are None or
  given, and the last argument is the value in which the initialiser of the field
  operator, which is not part of this file, leaves the flag.\<close>

definition ap_init ::
  "point list \<Rightarrow> npfloat \<Rightarrow> npfloat list option \<Rightarrow> kwargs option \<Rightarrow> bool \<Rightarrow>
   error + arbitrary_points" where
  "ap_init pts cur ws kw flag =
     (case (case ws of None \<Rightarrow> np_ones (int (length pts)) | Some given \<Rightarrow> Inr given) of
        Inl e \<Rightarrow> Inl e
      | Inr w \<Rightarrow>
          Inr \<lparr>current = cur, weights = w, patch_kw = kw, uptodate = flag,
               stored_rz_pts = pts, arb_angle = 0\<rparr>)"

definition ap_translate :: "arbitrary_points \<Rightarrow> point \<Rightarrow> arbitrary_points" where
  "ap_translate self v =
     self\<lparr>stored_rz_pts := map (\<lambda>p. padd p v) (stored_rz_pts self), uptodate := False\<rparr>"

definition ap_rotate :: "arbitrary_points \<Rightarrow> real \<Rightarrow> point \<Rightarrow> arbitrary_points" where
  "ap_rotate self a pivot =
     self\<lparr>arb_angle := arb_angle self + a,
          stored_rz_pts := map (rotate_about a pivot) (stored_rz_pts self),
          uptodate := False\<rparr>"

subsection \<open>RectangularCoil\<close>

record rectangular_coil = filament_set +
  r0 :: real
  z0 :: real
  nr :: int
  nz :: int
  dr :: real
  dz :: real
  angle :: real

definition rc_init ::
  "real \<Rightarrow> real \<Rightarrow> int \<Rightarrow> int \<Rightarrow> real \<Rightarrow> real \<Rightarrow> real \<Rightarrow> npfloat \<Rightarrow>
   npfloat list option \<Rightarrow> kwargs option \<Rightarrow> bool \<Rightarrow> error + rectangular_coil" where
  "rc_init r z n m d e a cur ws kw flag =
     (case (case ws of None \<Rightarrow> np_ones (n * m) | Some given \<Rightarrow> Inr given) of
        Inl err \<Rightarrow> Inl err
      | Inr w \<Rightarrow>
          Inr \<lparr>current = cur, weights = w, patch_kw = kw, uptodate = flag,
               r0 = r, z0 = z, nr = n, nz = m, dr = d, dz = e, angle = a\<rparr>)"

definition rc_centroid :: "rectangular_coil \<Rightarrow> point" where
  "rc_centroid self = (r0 self, z0 self)"

definition rc_npts :: "rectangular_coil \<Rightarrow> int" where
  "rc_npts self = nr self * nz self"

text \<open>The grid of \<^verbatim>\<open>rz_pts\<close> before the rotation:
  \<^verbatim>\<open>[(ri, zi) for ri in r for zi in z]\<close>.\<close>

definition rc_grid :: "rectangular_coil \<Rightarrow> error + point list" where
  "rc_grid self =
     (let rl = r0 self - dr self * (real_of_int (nr self) - 1) / 2;
          ru = r0 self + dr self * (real_of_int (nr self) - 1) / 2;
          zl = z0 self - dz self * (real_of_int (nz self) - 1) / 2;
          zu = z0 self + dz self * (real_of_int (nz self) - 1) / 2
      in case linspace rl ru (nr self) of
           Inl e \<Rightarrow> Inl e
         | Inr r \<Rightarrow>
             (case linspace zl zu (nz self) of
                Inl e \<Rightarrow> Inl e
              | Inr z \<Rightarrow> Inr (concat (map (\<lambda>ri. map (\<lambda>zi. (ri, zi)) z) r))))"

text \<open>\<^verbatim>\<open>np.isclose(self.angle, 0)\<close> with numpy's default tolerances.\<close>

definition rc_angle_isclose :: "real \<Rightarrow> bool" where
  "rc_angle_isclose a = np_isclose a 0 (1 / 10 ^ 5) (1 / 10 ^ 8)"

definition rc_rz_pts :: "rectangular_coil \<Rightarrow> error + ndarray" where
  "rc_rz_pts self =
     (case rc_grid self of
        Inl e \<Rightarrow> Inl e
      | Inr g \<Rightarrow>
          (if rc_angle_isclose (angle self) then Inr (np_array g)
           else Inr (transforms_rotate (np_array g) (angle self) (rc_centroid self))))"

definition rc_set_r0 :: "rectangular_coil \<Rightarrow> real \<Rightarrow> rectangular_coil" where
  "rc_set_r0 = flag_greens_on_set (\<lambda>self v. self\<lparr>r0 := v\<rparr>)"

definition rc_set_z0 :: "rectangular_coil \<Rightarrow> real \<Rightarrow> rectangular_coil" where
  "rc_set_z0 = flag_greens_on_set (\<lambda>self v. self\<lparr>z0 := v\<rparr>)"

definition rc_set_centroid :: "rectangular_coil \<Rightarrow> point \<Rightarrow> rectangular_coil" where
  "rc_set_centroid = flag_greens_on_set (\<lambda>self c. self\<lparr>r0 := fst c, z0 := snd c\<rparr>)"

definition rc_set_nr :: "rectangular_coil \<Rightarrow> int \<Rightarrow> rectangular_coil" where
  "rc_set_nr = flag_greens_on_set (\<lambda>self v. self\<lparr>nr := v\<rparr>)"

definition rc_set_nz :: "rectangular_coil \<Rightarrow> int \<Rightarrow> rectangular_coil" where
  "rc_set_nz = flag_greens_on_set (\<lambda>self v. self\<lparr>nz := v\<rparr>)"

definition rc_set_dr :: "rectangular_coil \<Rightarrow> real \<Rightarrow> rectangular_coil" where
  "rc_set_dr = flag_greens_on_set (\<lambda>self v. self\<lparr>dr := v\<rparr>)"

definition rc_set_dz :: "rectangular_coil \<Rightarrow> real \<Rightarrow> rectangular_coil" where
  "rc_set_dz = flag_greens_on_set (\<lambda>self v. self\<lparr>dz := v\<rparr>)"

definition rc_set_angle :: "rectangular_coil \<Rightarrow> real \<Rightarrow> rectangular_coil" where
  "rc_set_angle = flag_greens_on_set (\<lambda>self v. self\<lparr>angle := v\<rparr>)"

definition rc_translate :: "rectangular_coil \<Rightarrow> point \<Rightarrow> rectangular_coil" where
  "rc_translate self v = rc_set_centroid self (padd (rc_centroid self) v)"

definition rc_rotate :: "rectangular_coil \<Rightarrow> real \<Rightarrow> point \<Rightarrow> rectangular_coil" where
  "rc_rotate self a pivot =
     (let self1 = rc_set_angle self (angle self + a)
      in rc_set_centroid self1 (rotate_about a pivot (rc_centroid self1)))"

text \<open>\<^verbatim>\<open>_verts\<close>: the four corner filaments (the first repeated), each moved
  outwards by half a spacing, the offsets rotated about the origin with the coil.\<close>

definition rc_verts :: "rectangular_coil \<Rightarrow> error + point list" where
  "rc_verts self =
     (let idx = [0, nz self - 1, nr self * nz self - 1, (nr self - 1) * nz self, 0]
      in case rc_rz_pts self of
           Inl e \<Rightarrow> Inl e
         | Inr arr \<Rightarrow>
             (case take_rows arr idx of
                Inl e \<Rightarrow> Inl e
              | Inr verts \<Rightarrow>
                  (let hdr = dr self / 2; hdz = dz self / 2;
                       dverts = Nx2 [(- hdr, - hdz), (- hdr, hdz), (hdr, hdz),
                                     (hdr, - hdz), (- hdr, - hdz)];
                       dverts' = (if \<not> rc_angle_isclose (angle self)
                                  then transforms_rotate dverts (angle self) (0, 0)
                                  else dverts)
                   in Inr (map2 padd verts (rows dverts')))))"

definition rc_patch ::
  "(path \<Rightarrow> kwargs \<Rightarrow> error + 'p) \<Rightarrow> rectangular_coil \<Rightarrow> error + 'p" where
  "rc_patch PathPatch self =
     (case rc_verts self of
        Inl e \<Rightarrow> Inl e
      | Inr verts \<Rightarrow> PathPatch (verts, codes) Map.empty)"

subsection \<open>MagnetRing\<close>

record magnet_ring = filament_set +
  ring_r0 :: real
  ring_z0 :: real
  width :: real
  height :: real
  mu_hat :: real

text \<open>\<^verbatim>\<open>MagnetRing.__init__\<close>. The five geometric attributes are assigned first; the
  weights default to sixteen ones with the first eight overwritten by -1; the base
  initialiser then stores the current, the weights (explicit weights are stored as they
  are, of any length) and \<^verbatim>\<open>patch_kw\<close>, and never needs \<^verbatim>\<open>npts\<close>.\<close>

definition default_ring_weights :: "npfloat list" where
  "default_ring_weights = replicate 8 (Fin (- 1)) @ drop 8 (replicate 16 (Fin 1))"

definition mr_init ::
  "real \<Rightarrow> real \<Rightarrow> real \<Rightarrow> real \<Rightarrow> real \<Rightarrow> npfloat \<Rightarrow> npfloat list option \<Rightarrow>
   kwargs option \<Rightarrow> bool \<Rightarrow> magnet_ring" where
  "mr_init r z w h mu cur ws kw flag =
     \<lparr>current = cur,
      weights = (case ws of None \<Rightarrow> default_ring_weights | Some given \<Rightarrow> given),
      patch_kw = kw, uptodate = flag,
      ring_r0 = r, ring_z0 = z, width = w, height = h, mu_hat = mu\<rparr>"

definition mr_centroid :: "magnet_ring \<Rightarrow> point" where
  "mr_centroid self = (ring_r0 self, ring_z0 self)"

definition mr_npts :: "magnet_ring \<Rightarrow> int" where
  "mr_npts self = int (length (weights self))"

text \<open>The two sheets of \<^verbatim>\<open>rz_pts\<close> before the rotation. The array has \<open>npts\<close> rows;
  its two columns are assigned in four slices, \<open>[0:hnpts]\<close> and \<open>[hnpts:]\<close> of each.\<close>

definition mr_sheets :: "magnet_ring \<Rightarrow> error + point list" where
  "mr_sheets self =
     (let npts = length (weights self); hnpts = npts div 2;
          hw = width self / 2; hh = height self / 2;
          rspace = replicate hnpts hw
      in case linspace (- hh) hh (int hnpts) of
           Inl e \<Rightarrow> Inl e
         | Inr zspace \<Rightarrow>
             (case set_slice hnpts (map (\<lambda>x. ring_r0 self - x) rspace) of
                Inl e \<Rightarrow> Inl e
              | Inr rlo \<Rightarrow>
             (case set_slice (npts - hnpts) (map (\<lambda>x. ring_r0 self + x) rspace) of
                Inl e \<Rightarrow> Inl e
              | Inr rhi \<Rightarrow>
             (case set_slice hnpts (map (\<lambda>x. ring_z0 self + x) zspace) of
                Inl e \<Rightarrow> Inl e
              | Inr zlo \<Rightarrow>
             (case set_slice (npts - hnpts) (map (\<lambda>x. ring_z0 self + x) zspace) of
                Inl e \<Rightarrow> Inl e
              | Inr zhi \<Rightarrow> Inr (zip (rlo @ rhi) (zlo @ zhi)))))))"

text \<open>The tolerance \<^verbatim>\<open>cv._ATOL\<close> is a constant of \<^verbatim>\<open>pleiades/checkvalue.py\<close>, which
  is not among the sources: it is the parameter \<open>atol\<close>.\<close>

definition mr_rz_pts :: "real \<Rightarrow> magnet_ring \<Rightarrow> error + ndarray" where
  "mr_rz_pts atol self =
     (case mr_sheets self of
        Inl e \<Rightarrow> Inl e
      | Inr ps \<Rightarrow>
          (if np_isclose (mu_hat self) 0 0 atol then Inr (Nx2 ps)
           else Inr (transforms_rotate (Nx2 ps) (mu_hat self) (mr_centroid self))))"

definition mr_set_r0 :: "magnet_ring \<Rightarrow> real \<Rightarrow> magnet_ring" where
  "mr_set_r0 = flag_greens_on_set (\<lambda>self v. self\<lparr>ring_r0 := v\<rparr>)"

definition mr_set_z0 :: "magnet_ring \<Rightarrow> real \<Rightarrow> magnet_ring" where
  "mr_set_z0 = flag_greens_on_set (\<lambda>self v. self\<lparr>ring_z0 := v\<rparr>)"

definition mr_set_centroid :: "magnet_ring \<Rightarrow> point \<Rightarrow> magnet_ring" where
  "mr_set_centroid =
     flag_greens_on_set (\<lambda>self c. self\<lparr>ring_r0 := fst c, ring_z0 := snd c\<rparr>)"

definition mr_set_width :: "magnet_ring \<Rightarrow> real \<Rightarrow> magnet_ring" where
  "mr_set_width = flag_greens_on_set (\<lambda>self v. self\<lparr>width := v\<rparr>)"

definition mr_set_height :: "magnet_ring \<Rightarrow> real \<Rightarrow> magnet_ring" where
  "mr_set_height = flag_greens_on_set (\<lambda>self v. self\<lparr>height := v\<rparr>)"

definition mr_set_mu_hat :: "magnet_ring \<Rightarrow> real \<Rightarrow> magnet_ring" where
  "mr_set_mu_hat = flag_greens_on_set (\<lambda>self v. self\<lparr>mu_hat := v\<rparr>)"

definition mr_translate :: "magnet_ring \<Rightarrow> point \<Rightarrow> magnet_ring" where
  "mr_translate self v = mr_set_centroid self (padd (mr_centroid self) v)"

definition mr_rotate :: "magnet_ring \<Rightarrow> real \<Rightarrow> point \<Rightarrow> magnet_ring" where
  "mr_rotate self a pivot =
     (let self1 = mr_set_mu_hat self (mu_hat self + a)
      in mr_set_centroid self1 (rotate_about a pivot (mr_centroid self1)))"

definition mr_verts :: "real \<Rightarrow> magnet_ring \<Rightarrow> error + point list" where
  "mr_verts atol self =
     (let npts = mr_npts self;
          idx = [0, npts div 2 - 1, npts - 1, npts div 2, 0]
      in case mr_rz_pts atol self of
           Inl e \<Rightarrow> Inl e
         | Inr arr \<Rightarrow> take_rows arr idx)"

text \<open>\<^verbatim>\<open>patches.PathPatch(Path(self._verts, self._codes), **self.patch_kw)\<close>: the
  path is built first; unpacking None as keyword arguments raises TypeError.\<close>

definition mr_patch ::
  "(path \<Rightarrow> kwargs \<Rightarrow> error + 'p) \<Rightarrow> real \<Rightarrow> magnet_ring \<Rightarrow> error + 'p" where
  "mr_patch PathPatch atol self =
     (case mr_verts atol self of
        Inl e \<Rightarrow> Inl e
      | Inr verts \<Rightarrow>
          (case patch_kw self of
             None \<Rightarrow> Inl TypeError
           | Some kw \<Rightarrow> PathPatch (verts, codes) kw))"

subsection \<open>The concrete shapes together\<close>

datatype shape = AP arbitrary_points | RC rectangular_coil | MR magnet_ring

fun npts :: "shape \<Rightarrow> int" where
  "npts (AP a) = ap_npts a"
| "npts (RC c) = rc_npts c"
| "npts (MR m) = mr_npts m"


fun shape_weights :: "shape \<Rightarrow> npfloat list" where
  "shape_weights (AP a) = weights a"
| "shape_weights (RC c) = weights c"
| "shape_weights (MR m) = weights m"


fun translate :: "shape \<Rightarrow> point \<Rightarrow> shape" where
  "translate (AP a) v = AP (ap_translate a v)"
| "translate (RC c) v = RC (rc_translate c v)"
| "translate (MR m) v = MR (mr_translate m v)"

fun rotate_shape :: "shape \<Rightarrow> real \<Rightarrow> point \<Rightarrow> shape" where
  "rotate_shape (AP a) ang pivot = AP (ap_rotate a ang pivot)"
| "rotate_shape (RC c) ang pivot = RC (rc_rotate c ang pivot)"
| "rotate_shape (MR m) ang pivot = MR (mr_rotate m ang pivot)"



text \<open>Sequences of \<^verbatim>\<open>translate\<close> and \<^verbatim>\<open>rotate\<close> calls.\<close>

datatype motion = Translate point | Rotate real point

fun move :: "shape \<Rightarrow> motion \<Rightarrow> shape" where
  "move s (Translate v) = translate s v"
| "move s (Rotate a pivot) = rotate_shape s a pivot"


text \<open>The mutations of an instance: the assignments to its attributes and the two
  calls. Assigning to a name that is no property of the instance's class creates a
  fresh attribute and leaves the state modelled here as it is.\<close>

datatype mutation =
    Set_current npfloat
  | Set_weights "npfloat list"
  | Set_total_current npfloat
  | Set_patch_kw "kwargs option"
  | Set_r0 real
  | Set_z0 real
  | Set_centroid point
  | Set_nr int
  | Set_nz int
  | Set_dr real
  | Set_dz real
  | Set_angle real
  | Set_width real
  | Set_height real
  | Set_mu_hat real
  | Call motion

fun mutate :: "shape \<Rightarrow> mutation \<Rightarrow> shape" where
  "mutate (AP a) (Set_current x) = AP (set_current a x)"
| "mutate (RC c) (Set_current x) = RC (set_current c x)"
| "mutate (MR m) (Set_current x) = MR (set_current m x)"
| "mutate (AP a) (Set_weights w) = AP (set_weights a w)"
| "mutate (RC c) (Set_weights w) = RC (set_weights c w)"
| "mutate (MR m) (Set_weights w) = MR (set_weights m w)"
| "mutate (AP a) (Set_total_current x) = AP (set_total_current a x)"
| "mutate (RC c) (Set_total_current x) = RC (set_total_current c x)"
| "mutate (MR m) (Set_total_current x) = MR (set_total_current m x)"
| "mutate (AP a) (Set_patch_kw k) = AP (a\<lparr>patch_kw := k\<rparr>)"
| "mutate (RC c) (Set_patch_kw k) = RC (c\<lparr>patch_kw := k\<rparr>)"
| "mutate (MR m) (Set_patch_kw k) = MR (m\<lparr>patch_kw := k\<rparr>)"
| "mutate (RC c) (Set_r0 x) = RC (rc_set_r0 c x)"
| "mutate (MR m) (Set_r0 x) = MR (mr_set_r0 m x)"
| "mutate (RC c) (Set_z0 x) = RC (rc_set_z0 c x)"
| "mutate (MR m) (Set_z0 x) = MR (mr_set_z0 m x)"
| "mutate (RC c) (Set_centroid p) = RC (rc_set_centroid c p)"
| "mutate (MR m) (Set_centroid p) = MR (mr_set_centroid m p)"
| "mutate (RC c) (Set_nr n) = RC (rc_set_nr c n)"
| "mutate (RC c) (Set_nz n) = RC (rc_set_nz c n)"
| "mutate (RC c) (Set_dr x) = RC (rc_set_dr c x)"
| "mutate (RC c) (Set_dz x) = RC (rc_set_dz c x)"
| "mutate (RC c) (Set_angle x) = RC (rc_set_angle c x)"
| "mutate (MR m) (Set_width x) = MR (mr_set_width m x)"
| "mutate (MR m) (Set_height x) = MR (mr_set_height m x)"
| "mutate (MR m) (Set_mu_hat x) = MR (mr_set_mu_hat m x)"
| "mutate s (Call mv) = move s mv"
| "mutate s other = s"

subsection \<open>Notions of the specification\<close>

text \<open>The representation invariant of section 3: as many weights as filaments.\<close>

definition weights_match :: "shape \<Rightarrow> bool" where
  "weights_match s = (int (length (shape_weights s)) = npts s)"

text \<open>A finite value on which float64 arithmetic neither overflows nor underflows, with
  room for one rounding: zero, or a magnitude from the smallest normal number
  \<open>2^-1022\<close> up to \<open>2^1023\<close>.\<close>

definition min_normal :: real where
  "min_normal = 1 / 2 ^ 1022"

definition safe_magnitude :: "real \<Rightarrow> bool" where
  "safe_magnitude x = (x = 0 \<or> (min_normal \<le> \<bar>x\<bar> \<and> \<bar>x\<bar> \<le> 2 ^ 1023))"

text \<open>A mutation that leaves the number of filaments and the number of weights as they
  are: every mutation but an assignment of a weight vector of another length and an
  assignment to \<^verbatim>\<open>nr\<close> or \<^verbatim>\<open>nz\<close> of a coil that changes their product. (The filament
  count of a magnet ring is the length of its weights.)\<close>

fun keeps_count :: "shape \<Rightarrow> mutation \<Rightarrow> bool" where
  "keeps_count (MR m) mu = True"
| "keeps_count s (Set_weights w) = (int (length w) = npts s)"
| "keeps_count (RC c) (Set_nr n) = (n * nz c = nr c * nz c)"
| "keeps_count (RC c) (Set_nz n) = (nr c * n = nr c * nz c)"
| "keeps_count s mu = True"




text \<open>The Green's-function data of an instance is marked stale.\<close>

fun greens_stale :: "shape \<Rightarrow> bool" where
  "greens_stale (AP a) = (\<not> uptodate a)"
| "greens_stale (RC c) = (\<not> uptodate c)"
| "greens_stale (MR m) = (\<not> uptodate m)"

subsection \<open>Instances with the default arguments\<close>

text \<open>\<^verbatim>\<open>RectangularCoil()\<close> and \<^verbatim>\<open>MagnetRing()\<close>, with the flag cleared.\<close>

definition default_coil :: rectangular_coil where
  "default_coil =
     \<lparr>current = Fin 1, weights = [Fin 1], patch_kw = None, uptodate = False,
      r0 = 1, z0 = 0, nr = 1, nz = 1, dr = 1 / 10, dz = 1 / 10, angle = 0\<rparr>"

definition default_ring :: magnet_ring where
  "default_ring = mr_init 1 0 (1 / 100) (1 / 100) 0 (Fin 1) None None False"

section \<open>Properties\<close>

subsection \<open>Arithmetic of the extended values\<close>

lemma fdiv_zero_not_finite: "\<not> is_finite (fdiv t (Fin 0))"
  by (cases t) simp_all

lemma overflow_threshold_large: "2 ^ 1023 < overflow_threshold"
proof -
  have "(2 :: real) ^ 970 < 2 ^ 1023"
    by (rule power_strict_increasing) simp_all
  moreover have "(2 :: real) ^ 1024 = 2 * 2 ^ 1023"
    by (simp add: power_Suc [symmetric] del: power_Suc)
  ultimately show ?thesis by (simp add: overflow_threshold_def)
qed

lemma underflow_threshold_small: "underflow_threshold < min_normal"
proof -
  have "(2 :: real) ^ 1022 < 2 ^ 1075"
    by (rule power_strict_increasing) simp_all
  then show ?thesis
    by (simp add: underflow_threshold_def min_normal_def field_simps)
qed

lemma to_float64_zero: "to_float64 0 = Fin 0"
proof -
  have "0 < overflow_threshold"
    using overflow_threshold_large by (rule order.strict_trans [rotated]) simp
  then show ?thesis by (simp add: to_float64_def underflow_threshold_def)
qed

lemma to_float64_safe: "safe_magnitude x \<Longrightarrow> to_float64 x = Fin x"
  using overflow_threshold_large underflow_threshold_small
  by (auto simp: safe_magnitude_def to_float64_def to_float64_zero)

lemma safe_moderate:
  assumes "1 / 1024 \<le> \<bar>x\<bar>" and "\<bar>x\<bar> \<le> 1024"
  shows "safe_magnitude x"
proof -
  have "(2 :: real) ^ 10 \<le> 2 ^ 1022" "(2 :: real) ^ 10 \<le> 2 ^ 1023"
    by (rule power_increasing; simp)+
  then have "min_normal \<le> 1 / 1024" "(1024 :: real) \<le> 2 ^ 1023"
    by (simp_all add: min_normal_def field_simps)
  with assms show ?thesis by (simp add: safe_magnitude_def)
qed

lemma to_float64_moderate:
  "1 / 1024 \<le> \<bar>x\<bar> \<Longrightarrow> \<bar>x\<bar> \<le> 1024 \<Longrightarrow> to_float64 x = Fin x"
  by (rule to_float64_safe) (rule safe_moderate)

lemma np_sum_default_ring_weights: "np_sum default_ring_weights = Fin 0"
  by (simp add: np_sum_def default_ring_weights_def eval_nat_numeral to_float64_zero
        to_float64_moderate)

lemma np_sum_default_ring: "np_sum (weights default_ring) = Fin 0"
  by (simp add: default_ring_def mr_init_def np_sum_default_ring_weights)

lemma rc_init_default:
  "rc_init 1 0 1 1 (1 / 10) (1 / 10) 0 (Fin 1) None None False = Inr default_coil"
  by (simp add: rc_init_def np_ones_def default_coil_def)

lemmas setter_defs =
  flag_greens_on_set_def set_weights_def set_current_def set_total_current_def
  rc_set_r0_def rc_set_z0_def rc_set_centroid_def rc_set_nr_def rc_set_nz_def
  rc_set_dr_def rc_set_dz_def rc_set_angle_def
  mr_set_r0_def mr_set_z0_def mr_set_centroid_def mr_set_width_def mr_set_height_def
  mr_set_mu_hat_def
  ap_translate_def ap_rotate_def rc_translate_def rc_rotate_def mr_translate_def
  mr_rotate_def

subsection \<open>The invalidation protocol\<close>

lemma moves_flag: "greens_stale (translate s v) \<and> greens_stale (rotate_shape s a p)"
  by (cases s) (simp_all add: setter_defs Let_def)

text \<open>
  Claim C1. Assigning to \<^verbatim>\<open>weights\<close>, to any of \<^verbatim>\<open>r0\<close>, \<^verbatim>\<open>z0\<close>, \<^verbatim>\<open>centroid\<close>,
  \<^verbatim>\<open>nr\<close>, \<^verbatim>\<open>nz\<close>, \<^verbatim>\<open>dr\<close>, \<^verbatim>\<open>dz\<close>, \<^verbatim>\<open>angle\<close> of a rectangular coil, to any of
  \<^verbatim>\<open>r0\<close>, \<^verbatim>\<open>z0\<close>, \<^verbatim>\<open>centroid\<close>, \<^verbatim>\<open>width\<close>, \<^verbatim>\<open>height\<close>, \<^verbatim>\<open>mu_hat\<close> of a magnet ring,
  and calling \<^verbatim>\<open>translate\<close> or \<^verbatim>\<open>rotate\<close> on any shape leaves the instance marked
  stale; assigning to \<^verbatim>\<open>current\<close> changes the stored current and nothing else, so
  the flag stays as it was.
\<close>

theorem setters_flag_greens:
  "uptodate (set_weights self w) = False \<and>
   uptodate (rc_set_r0 c x) = False \<and> uptodate (rc_set_z0 c x) = False \<and>
   uptodate (rc_set_centroid c q) = False \<and>
   uptodate (rc_set_nr c n) = False \<and> uptodate (rc_set_nz c n) = False \<and>
   uptodate (rc_set_dr c x) = False \<and> uptodate (rc_set_dz c x) = False \<and>
   uptodate (rc_set_angle c x) = False \<and>
   uptodate (mr_set_r0 m x) = False \<and> uptodate (mr_set_z0 m x) = False \<and>
   uptodate (mr_set_centroid m q) = False \<and>
   uptodate (mr_set_width m x) = False \<and> uptodate (mr_set_height m x) = False \<and>
   uptodate (mr_set_mu_hat m x) = False \<and>
   greens_stale (translate s v) \<and> greens_stale (rotate_shape s a p) \<and>
   set_current self cur = self\<lparr>current := cur\<rparr> \<and>
   uptodate (set_current self cur) = uptodate self"
  using moves_flag [of s v a p] by (simp add: setter_defs)

subsection \<open>The magnet ring's weights\<close>

text \<open>
  Claim C3, as amended. The number of filaments of a magnet ring is the number of its
  weights. A ring constructed without explicit weights has 16 filaments, weights -1 for
  the first eight and +1 for the last eight, a weight sum of 0 and a total current of 0
  for every finite value of the current, given at construction or assigned later.
\<close>

theorem magnet_ring_default_weights:
  "mr_npts m = int (length (weights m)) \<and>
   mr_npts (mr_init r z w h mu cur None kw flag) = 16 \<and>
   weights (mr_init r z w h mu cur None kw flag)
     = replicate 8 (Fin (- 1)) @ replicate 8 (Fin 1) \<and>
   np_sum (weights (mr_init r z w h mu cur None kw flag)) = Fin 0 \<and>
   total_current (mr_init r z w h mu (Fin x) None kw flag) = Fin 0 \<and>
   total_current (set_current (mr_init r z w h mu cur None kw flag) (Fin x)) = Fin 0"
  by (simp add: mr_npts_def mr_init_def total_current_def set_current_def
        np_sum_default_ring_weights to_float64_zero)
     (simp add: default_ring_weights_def)

text \<open>The claim as stated fails: two explicit weights make a ring of two filaments, and
  with an infinite current the total current of the default ring is NaN.\<close>

theorem magnet_ring_npts_counterexample:
  "mr_npts (mr_init 1 0 (1 / 100) (1 / 100) 0 (Fin 1) (Some [Fin 1, Fin 1]) None False) \<noteq> 16 \<and>
   total_current (set_current default_ring PInf) \<noteq> Fin 0"
  by (simp add: mr_npts_def mr_init_def total_current_def set_current_def default_ring_def
        np_sum_default_ring_weights)

subsection \<open>The total current\<close>

lemma np_sum_single: "1 / 1024 \<le> \<bar>w\<bar> \<Longrightarrow> \<bar>w\<bar> \<le> 1024 \<Longrightarrow> np_sum [Fin w] = Fin w"
  by (simp add: np_sum_def to_float64_moderate)

text \<open>
  Claim C7, as amended. The total current is the current times the sum of the weights.
  Assigning \<open>t\<close> to \<^verbatim>\<open>total_current\<close> stores \<open>t / sum(weights)\<close> as the current and
  leaves the weights as they are. When the sum of the weights is finite and not zero,
  and \<open>t\<close> and the quotient \<open>t / sum(weights)\<close> are each zero or of a magnitude from
  \<open>2^-1022\<close> to \<open>2^1023\<close> (so that neither the division nor the multiplication overflows
  or underflows), the total current then reads back as \<open>t\<close>.
\<close>

theorem total_current_roundtrip:
  "total_current self = fmul (current self) (np_sum (weights self)) \<and>
   set_total_current self t = self\<lparr>current := fdiv t (np_sum (weights self))\<rparr> \<and>
   weights (set_total_current self t) = weights self \<and>
   (\<forall>a w. np_sum (weights self) = Fin w \<and> w \<noteq> 0 \<and>
          safe_magnitude a \<and> safe_magnitude (a / w) \<longrightarrow>
        current (set_total_current self (Fin a)) = Fin (a / w) \<and>
        total_current (set_total_current self (Fin a)) = Fin a)"
  by (simp add: total_current_def set_total_current_def set_current_def to_float64_safe)

theorem total_current_roundtrip_witness:
  "np_sum (weights default_coil) = Fin 1 \<and> (1 :: real) \<noteq> 0 \<and>
   safe_magnitude 5 \<and> safe_magnitude (5 / 1) \<and>
   current (set_total_current default_coil (Fin 5)) = Fin 5 \<and>
   total_current (set_total_current default_coil (Fin 5)) = Fin 5"
proof -
  have s: "np_sum (weights default_coil) = Fin 1"
    using np_sum_single [of 1] by (simp add: default_coil_def)
  have m: "safe_magnitude 5" "safe_magnitude (5 / 1)"
    by (simp_all add: safe_moderate)
  have n: "(1 :: real) \<noteq> 0" by simp
  from total_current_roundtrip [of default_coil "Fin 5"] s m n
  have "current (set_total_current default_coil (Fin 5)) = Fin (5 / 1) \<and>
        total_current (set_total_current default_coil (Fin 5)) = Fin 5"
    by blast
  with s m n show ?thesis by simp
qed

text \<open>The claim as stated fails in three ways. On the default magnet ring, whose
  weights sum to zero, the total current does not read back as the 5 assigned to it. On
  a coil with the single weight 0.5, assigning \<open>2^1023\<close> stores an infinite current,
  since the quotient overflows, and reads back as infinity. On a coil with the single
  weight 4, assigning the smallest positive float \<open>2^-1074\<close> stores the current 0,
  since the quotient underflows, and reads back as 0.\<close>

theorem total_current_roundtrip_counterexample:
  "total_current (set_total_current default_ring (Fin 5)) \<noteq> Fin 5 \<and>
   total_current (set_total_current (default_coil\<lparr>weights := [Fin (1 / 2)]\<rparr>) (Fin (2 ^ 1023)))
     \<noteq> Fin (2 ^ 1023) \<and>
   total_current (set_total_current (default_coil\<lparr>weights := [Fin 4]\<rparr>) (Fin (1 / 2 ^ 1074)))
     \<noteq> Fin (1 / 2 ^ 1074)"
proof -
  have ring: "total_current (set_total_current default_ring (Fin 5)) = NaN"
    by (simp add: total_current_def set_total_current_def set_current_def
          np_sum_default_ring)
  have half: "np_sum [Fin (1 / 2)] = Fin (1 / 2)"
    by (rule np_sum_single) simp_all
  have four: "np_sum [Fin 4] = Fin 4"
    by (rule np_sum_single) simp_all
  have over: "total_current (set_total_current (default_coil\<lparr>weights := [Fin (1 / 2)]\<rparr>)
                 (Fin (2 ^ 1023))) = PInf"
    by (simp add: total_current_def set_total_current_def set_current_def half
          to_float64_def overflow_threshold_def)
  have under: "total_current (set_total_current (default_coil\<lparr>weights := [Fin 4]\<rparr>)
                 (Fin (1 / 2 ^ 1074))) = Fin 0"
    by (simp add: total_current_def set_total_current_def set_current_def four
          to_float64_def overflow_threshold_def underflow_threshold_def)
  show ?thesis
    unfolding ring over under by simp
qed

text \<open>
  Claim C10. When the weights sum to zero, assigning any value to \<^verbatim>\<open>total_current\<close>
  raises nothing: the assignment returns with the quotient by zero stored as the
  current, which is an infinity or NaN, and with the weights as they were.
\<close>

theorem total_current_zero_division:
  "np_sum (weights self) = Fin 0 \<Longrightarrow>
     set_total_current self t = self\<lparr>current := fdiv t (Fin 0)\<rparr> \<and>
     \<not> is_finite (current (set_total_current self t)) \<and>
     weights (set_total_current self t) = weights self"
  by (simp add: set_total_current_def set_current_def fdiv_zero_not_finite)

theorem total_current_zero_division_witness:
  "np_sum (weights default_ring) = Fin 0 \<and>
   current (set_total_current default_ring (Fin 5)) = PInf \<and>
   \<not> is_finite (current (set_total_current default_ring (Fin 5)))"
  using np_sum_default_ring total_current_zero_division [OF np_sum_default_ring, of "Fin 5"]
  by simp

subsection \<open>The number of weights\<close>

lemma move_weights_match: "weights_match (move s mv) = weights_match s"
  by (cases s; cases mv)
     (simp_all add: weights_match_def setter_defs ap_npts_def rc_npts_def mr_npts_def Let_def)

lemma mutate_keeps:
  assumes "weights_match s" and "keeps_count s mu"
  shows "weights_match (mutate s mu)"
proof (cases "\<exists>mv. mu = Call mv")
  case True
  with assms(1) show ?thesis by (auto simp: move_weights_match)
next
  case False
  with assms show ?thesis
    by (cases s; cases mu)
       (auto simp: weights_match_def setter_defs ap_npts_def rc_npts_def mr_npts_def)
qed

text \<open>
  Claim C4, as amended. A magnet ring has as many weights as filaments in every state.
  A set of arbitrary points or a rectangular coil has as many weights as filaments after
  a construction without explicit weights, and every mutation keeps that but an
  assignment to \<^verbatim>\<open>weights\<close> of a vector of another length and an assignment to
  \<^verbatim>\<open>nr\<close> or \<^verbatim>\<open>nz\<close> that changes the product \<open>nr * nz\<close>.
\<close>

theorem weights_match_kept:
  "weights_match (MR m) \<and>
   (\<forall>a. ap_init pts cur None kw flag = Inr a \<longrightarrow> weights_match (AP a)) \<and>
   (\<forall>c. rc_init r z n k d e ang cur None kw flag = Inr c \<longrightarrow> weights_match (RC c)) \<and>
   (weights_match s \<and> keeps_count s mu \<longrightarrow> weights_match (mutate s mu))"
  using mutate_keeps [of s mu]
  by (auto simp: weights_match_def mr_npts_def ap_init_def rc_init_def np_ones_def
        ap_npts_def rc_npts_def split: if_splits)

theorem weights_match_kept_witness:
  "rc_init 1 0 1 1 (1 / 10) (1 / 10) 0 (Fin 1) None None False = Inr default_coil \<and>
   weights_match (RC default_coil) \<and>
   keeps_count (RC default_coil) (Set_weights [Fin 2]) \<and>
   weights_match (mutate (RC default_coil) (Set_weights [Fin 2]))"
proof -
  have k: "keeps_count (RC default_coil) (Set_weights [Fin 2])"
    by (simp add: default_coil_def rc_npts_def)
  from weights_match_kept
    [of default_ring "[]" "Fin 1" None False 1 0 1 1 "1 / 10" "1 / 10" 0 "RC default_coil"
        "Set_weights [Fin 2]"]
  show ?thesis using rc_init_default k by blast
qed

text \<open>The claim as stated fails: the default coil has one filament and one weight;
  after assigning two weights it has one filament and two weights, and after assigning 2
  to \<^verbatim>\<open>nr\<close> it has two filaments and one weight.\<close>

theorem weights_match_counterexample:
  "weights_match (RC default_coil) \<and>
   \<not> weights_match (mutate (RC default_coil) (Set_weights [Fin 1, Fin 1])) \<and>
   \<not> weights_match (mutate (RC default_coil) (Set_nr 2))"
  by (simp add: default_coil_def weights_match_def rc_npts_def setter_defs)

subsection \<open>The unimplemented operations\<close>





subsection \<open>The boundary polygon\<close>

lemma upt8: "[0..<8] = [0, 1, 2, 3, 4, 5, 6, 7 :: nat]"
  by (simp add: upt_rec)

lemma linspace8:
  "linspace (- (1 / 200)) (1 / 200) 8 =
     Inr [- (1 / 200), - (5 / 1400), - (3 / 1400), - (1 / 1400),
          1 / 1400, 3 / 1400, 5 / 1400, 1 / 200]"
  by (simp add: linspace_def upt8)

lemma default_ring_length: "length (weights default_ring) = 16"
  by (simp add: default_ring_def mr_init_def default_ring_weights_def)

lemma replicate8: "replicate 8 x = [x, x, x, x, x, x, x, x]"
  by (simp add: eval_nat_numeral)

lemma default_ring_sheets:
  "mr_sheets default_ring = Inr
     [(199 / 200, - (1 / 200)), (199 / 200, - (5 / 1400)), (199 / 200, - (3 / 1400)),
      (199 / 200, - (1 / 1400)), (199 / 200, 1 / 1400), (199 / 200, 3 / 1400),
      (199 / 200, 5 / 1400), (199 / 200, 1 / 200),
      (201 / 200, - (1 / 200)), (201 / 200, - (5 / 1400)), (201 / 200, - (3 / 1400)),
      (201 / 200, - (1 / 1400)), (201 / 200, 1 / 1400), (201 / 200, 3 / 1400),
      (201 / 200, 5 / 1400), (201 / 200, 1 / 200)]"
  unfolding mr_sheets_def default_ring_length Let_def
  by (simp add: default_ring_def mr_init_def linspace8 set_slice_def replicate8)

lemma default_ring_verts:
  "mr_verts 0 default_ring = Inr
     [(199 / 200, - (1 / 200)), (199 / 200, 1 / 200), (201 / 200, 1 / 200),
      (201 / 200, - (1 / 200)), (199 / 200, - (1 / 200))]"
  unfolding mr_verts_def mr_rz_pts_def default_ring_sheets mr_npts_def default_ring_length Let_def
  by (simp add: default_ring_def mr_init_def np_isclose_def)

text \<open>
  Claim C9. A magnet ring constructed without \<^verbatim>\<open>patch_kw\<close> holds None there, and
  while it does, reading \<^verbatim>\<open>patch\<close> raises an error: the TypeError of unpacking None
  as keyword arguments whenever the vertices can be computed. The \<^verbatim>\<open>patch\<close> of a
  rectangular coil does not depend on \<^verbatim>\<open>patch_kw\<close>.
\<close>

theorem patch_kw_none_raises:
  "patch_kw (mr_init r z w h mu cur ws None flag) = None \<and>
   (patch_kw m = None \<longrightarrow> (\<exists>e. mr_patch PathPatch atol m = Inl e)) \<and>
   (patch_kw m = None \<and> mr_verts atol m = Inr v \<longrightarrow>
      mr_patch PathPatch atol m = Inl TypeError) \<and>
   rc_patch PathPatch (c\<lparr>patch_kw := kw\<rparr>) = rc_patch PathPatch c"
  by (auto simp: mr_patch_def rc_patch_def rc_verts_def rc_rz_pts_def rc_grid_def
        rc_centroid_def mr_init_def split: sum.splits)

theorem patch_kw_none_raises_witness:
  "patch_kw default_ring = None \<and>
   mr_verts 0 default_ring = Inr
     [(199 / 200, - (1 / 200)), (199 / 200, 1 / 200), (201 / 200, 1 / 200),
      (201 / 200, - (1 / 200)), (199 / 200, - (1 / 200))] \<and>
   mr_patch (\<lambda>p k. Inr p) 0 default_ring = (Inl TypeError :: error + path)"
proof -
  have n: "patch_kw default_ring = None"
    by (simp add: default_ring_def mr_init_def)
  from patch_kw_none_raises [where m = default_ring and atol = 0] n default_ring_verts
  show ?thesis by blast
qed

subsection \<open>Rotations and translations of points\<close>








subsection \<open>Round trips\<close>






subsection \<open>Rigidity\<close>



























subsection \<open>The grid of a rectangular coil\<close>






end
